theory Spec2Isabelle
  imports Main
begin

section \<open>The chat front-end of \<^verbatim>\<open>streamlit_app.py\<close>\<close>

text \<open>
  The script is executed from top to bottom on every user interaction (a rerun).
  Three things outlive one rerun: the slot of \<^verbatim>\<open>st.cache_resource\<close> and
  \<^verbatim>\<open>sys.stdout\<close>, which belong to the process, and \<^verbatim>\<open>st.session_state\<close>, which
  belongs to one browser session. Everything the script calls but does not define (the tool
  provider, the model, the agent, the chat input) is a field of a \<open>world\<close> record: what
  these collaborators do during one rerun.
\<close>

subsection \<open>Data\<close>

text \<open>An exception is represented by its text (\<^verbatim>\<open>str(e)\<close>); every exception the
  collaborators raise is an instance of \<^verbatim>\<open>Exception\<close>.\<close>

type_synonym exn = string

text \<open>A discovered tool is represented by its \<^verbatim>\<open>__name__\<close>.\<close>

type_synonym tool = string

record bedrock_model =
  model_id :: string

record agent =
  system_prompt :: string
  tools :: "tool list"
  model :: bedrock_model

text \<open>One entry of \<^verbatim>\<open>st.session_state.messages\<close>: the dict
  \<^verbatim>\<open>{"role": ..., "content": ...}\<close>. The agent's result object is represented by the
  text it renders to.\<close>

record message =
  role :: string
  content :: string

record session_state =
  messages :: "message list option"

text \<open>The elements a rerun puts on the page, in order.\<close>

datatype element =
    St_error string
  | St_success string
  | St_warning string
  | St_chat_message string
  | St_markdown string
  | St_status string
  | Status_markdown string
  | Status_code string
  | Status_update string

text \<open>A stream object: the console the process inherited, or the \<open>n\<close>-th
  \<^verbatim>\<open>StringIO()\<close> the process allocated.\<close>

datatype stream = Console | StringIO nat

record process =
  cache :: "(agent option \<times> element list) option"
  sys_stdout :: stream
  streams :: "stream \<Rightarrow> string"
  next_buf :: nat
  logged :: "string list"
  discoveries :: nat
  runs :: nat

record world =
  A2AClientToolProvider :: "exn + tool list"
  BedrockModel :: "exn option"
  Agent :: "exn option"
  chat_input :: "string option"
  agent_call :: "agent \<Rightarrow> string \<Rightarrow> string \<times> (exn + string)"

text \<open>
  \<^item> \<open>cache\<close>: the slot of \<^verbatim>\<open>@st.cache_resource\<close> for
    \<open>initialize_client_agent\<close>, a function without arguments: empty, or the value the
    function returned together with the elements it displayed (they are shown again on
    every later call).
  \<^item> \<open>streams\<close>: the text written so far to each stream object.
  \<^item> \<open>logged\<close>: the records given to \<^verbatim>\<open>logger.info\<close> (they go to the logging
    handler, not to \<^verbatim>\<open>sys.stdout\<close>).
  \<^item> \<open>discoveries\<close>, \<open>runs\<close>: how many times the provider was constructed and how many
    times the agent was called; the script never reads them.
  \<^item> \<open>A2AClientToolProvider\<close>: the constructor raises, or yields a provider whose
    \<^verbatim>\<open>tools\<close> is the given list. \<open>BedrockModel\<close>, \<open>Agent\<close>: the constructor raises
    the given exception, or (\<open>None\<close>) builds the object from its arguments.
  \<^item> \<open>chat_input\<close>: what \<^verbatim>\<open>st.chat_input\<close> returns.
  \<^item> \<open>agent_call\<close>: what \<^verbatim>\<open>client_agent(prompt)\<close> prints, and the exception it
    then raises or the response it returns.
\<close>

subsection \<open>Agent initialization with caching (lines 37-77)\<close>

definition SUPERVISOR_URL :: string where
  "SUPERVISOR_URL = ''http://localhost:5000''"

definition client_system_prompt :: string where
  "client_system_prompt =
     ''You are a command-line assistant. Your job is to\<newline>'' @
     ''        analyze the user's instruction and execute the most appropriate tool.\<newline>'' @
     ''        Use the tools available to you to find the supervisor agent and delegate the task to it.''"

definition logger_info :: "string \<Rightarrow> process \<Rightarrow> process" where
  "logger_info msg p = p\<lparr>logged := logged p @ [msg]\<rparr>"

fun log_tools :: "tool list \<Rightarrow> process \<Rightarrow> process" where
  "log_tools [] p = p"
| "log_tools (t # ts) p = log_tools ts (logger_info (''- '' @ t) p)"

text \<open>The body of the function: the value is \<open>Inl e\<close> when an exception leaves it,
  \<open>Inr None\<close> for \<^verbatim>\<open>return None\<close>, \<open>Inr (Some a)\<close> for the agent.\<close>

definition initialize_client_agent ::
  "world \<Rightarrow> process \<Rightarrow> (exn + agent option) \<times> element list \<times> process" where
  "initialize_client_agent w p =
     (let p1 = logger_info (''Attempting to discover agent at '' @ SUPERVISOR_URL @ ''...'') p;
          p2 = p1\<lparr>discoveries := Suc (discoveries p1)\<rparr>
      in case A2AClientToolProvider w of
           Inl e \<Rightarrow>
             (Inr None,
              [St_error (''Failed to connect to Supervisor Agent at '' @ SUPERVISOR_URL @ ''.''),
               St_error ''Please ensure supervisor_agent.py is running.'',
               St_error (''Details: '' @ e)],
              p2)
         | Inr provider_tools \<Rightarrow>
             (if provider_tools = [] then
                (Inr None,
                 [St_error (''No tools discovered from the agent at '' @ SUPERVISOR_URL @ ''.''),
                  St_error ''Ensure the Supervisor Agent has defined tools.''],
                 p2)
              else
                (let p3 = log_tools provider_tools
                            (logger_info ''Successfully discovered the following capabilities:'' p2)
                 in (case BedrockModel w of
                       Some e \<Rightarrow> (Inl e, [], p3)
                     | None \<Rightarrow>
                         (let client_bedrock_model =
                                \<lparr>model_id = ''eu.anthropic.claude-sonnet-4-20250514-v1:0''\<rparr>
                          in (case Agent w of
                                Some e \<Rightarrow> (Inl e, [], p3)
                              | None \<Rightarrow>
                                  (Inr (Some \<lparr>system_prompt = client_system_prompt,
                                              tools = provider_tools,
                                              model = client_bedrock_model\<rparr>),
                                   [St_success ''Successfully connected to the Supervisor Agent.''],
                                   p3)))))))"

text \<open>The decorated function: a filled slot answers without running the body; a value
  the body returns is stored; an exception leaves the slot as it was and propagates.\<close>

definition cached_initialize_client_agent ::
  "world \<Rightarrow> process \<Rightarrow> (exn + agent option) \<times> element list \<times> process" where
  "cached_initialize_client_agent w p =
     (case cache p of
        Some (v, shown) \<Rightarrow> (Inr v, shown, p)
      | None \<Rightarrow>
          (case initialize_client_agent w p of
             (Inl e, shown, p') \<Rightarrow> (Inl e, shown, p')
           | (Inr v, shown, p') \<Rightarrow> (Inr v, shown, p'\<lparr>cache := Some (v, shown)\<rparr>)))"

text \<open>A sequence of calls of the decorated function within the life of one process,
  each in the world of its moment.\<close>

fun initialize_calls ::
  "world list \<Rightarrow> process \<Rightarrow> (exn + agent option) list \<times> process" where
  "initialize_calls [] p = ([], p)"
| "initialize_calls (w # ws) p =
     (case cached_initialize_client_agent w p of
        (r, shown, p') \<Rightarrow>
          (case initialize_calls ws p' of (rs, p'') \<Rightarrow> (r # rs, p'')))"

subsection \<open>Capturing the agent's output (lines 108-120)\<close>

text \<open>Lines 108-110: remember the current \<^verbatim>\<open>sys.stdout\<close>, allocate an empty
  \<^verbatim>\<open>StringIO\<close> and make it \<^verbatim>\<open>sys.stdout\<close>. The value is the pair
  \<open>(old_stdout, redirected_output)\<close>.\<close>

definition redirect :: "process \<Rightarrow> (stream \<times> stream) \<times> process" where
  "redirect p =
     (let old_stdout = sys_stdout p;
          redirected_output = StringIO (next_buf p)
      in ((old_stdout, redirected_output),
          p\<lparr>next_buf := Suc (next_buf p),
            streams := (streams p)(redirected_output := []),
            sys_stdout := redirected_output\<rparr>))"

text \<open>Line 114: the call of the agent. What it prints goes to the stream that
  \<^verbatim>\<open>sys.stdout\<close> names while it runs.\<close>

definition invoke :: "world \<Rightarrow> agent \<Rightarrow> string \<Rightarrow> process \<Rightarrow> (exn + string) \<times> process" where
  "invoke w a prompt p =
     (case agent_call w a prompt of
        (printed, r) \<Rightarrow>
          (r, p\<lparr>streams := (streams p)(sys_stdout p := streams p (sys_stdout p) @ printed),
                runs := Suc (runs p)\<rparr>))"

text \<open>Line 117.\<close>

definition restore :: "stream \<Rightarrow> process \<Rightarrow> process" where
  "restore old_stdout p = p\<lparr>sys_stdout := old_stdout\<rparr>"

text \<open>Line 120.\<close>

definition getvalue :: "stream \<Rightarrow> process \<Rightarrow> string" where
  "getvalue redirected_output p = streams p redirected_output"

subsection \<open>One turn (lines 99-130)\<close>

datatype outcome =
    Init_raised exn
  | Unavailable
  | No_input
  | Turn_completed
  | Turn_failed exn

text \<open>The body of \<^verbatim>\<open>if prompt := st.chat_input(...)\<close>. No statement of it is inside a
  \<^verbatim>\<open>try\<close>: an exception of the agent call ends the rerun at line 114, with what was
  done up to there.\<close>

definition handle_prompt ::
  "world \<Rightarrow> agent \<Rightarrow> string \<Rightarrow> process \<Rightarrow> message list
     \<Rightarrow> outcome \<times> element list \<times> process \<times> message list" where
  "handle_prompt w client_agent prompt p msgs =
     (let msgs1 = msgs @ [\<lparr>role = ''user'', content = prompt\<rparr>];
          shown1 = [St_chat_message ''user'', St_markdown prompt,
                    St_chat_message ''assistant'', St_status ''Thinking and executing task...'']
      in (case redirect p of
            ((old_stdout, redirected_output), p1) \<Rightarrow>
              (case invoke w client_agent prompt p1 of
                 (Inl e, p2) \<Rightarrow> (Turn_failed e, shown1, p2, msgs1)
               | (Inr final_response, p2) \<Rightarrow>
                   (let p3 = restore old_stdout p2;
                        agent_thoughts = getvalue redirected_output p3
                    in (Turn_completed,
                        shown1 @
                        [Status_markdown ''#### Agent's Thought Process:'',
                         Status_code agent_thoughts,
                         Status_update ''Task Complete!'',
                         St_markdown final_response],
                        p3,
                        msgs1 @ [\<lparr>role = ''assistant'', content = final_response\<rparr>])))))"

subsection \<open>The script (lines 83-132)\<close>

definition render_history :: "message list \<Rightarrow> element list" where
  "render_history ms =
     concat (map (\<lambda>m. [St_chat_message (role m), St_markdown (content m)]) ms)"

record result =
  outcome :: outcome
  rendered :: "element list"
  proc :: process
  sess :: session_state

text \<open>One rerun. \<^verbatim>\<open>if client_agent\<close> is false for \<^verbatim>\<open>None\<close> and true for an
  agent; \<^verbatim>\<open>if prompt := ...\<close> is false for \<^verbatim>\<open>None\<close> and for the empty string.\<close>

definition script :: "world \<Rightarrow> process \<Rightarrow> session_state \<Rightarrow> result" where
  "script w p s =
     (case cached_initialize_client_agent w p of
        (Inl e, shown, p1) \<Rightarrow>
          \<lparr>outcome = Init_raised e, rendered = shown, proc = p1, sess = s\<rparr>
      | (Inr client_agent, shown, p1) \<Rightarrow>
          (let msgs = (case messages s of None \<Rightarrow> [] | Some ms \<Rightarrow> ms);
               history = render_history msgs
           in (case client_agent of
                 None \<Rightarrow>
                   \<lparr>outcome = Unavailable,
                    rendered = shown @ history @
                      [St_warning ''Agent system is not available. Please resolve the errors above.''],
                    proc = p1, sess = s\<lparr>messages := Some msgs\<rparr>\<rparr>
               | Some a \<Rightarrow>
                   (case chat_input w of
                      None \<Rightarrow>
                        \<lparr>outcome = No_input, rendered = shown @ history,
                         proc = p1, sess = s\<lparr>messages := Some msgs\<rparr>\<rparr>
                    | Some prompt \<Rightarrow>
                        (if prompt = [] then
                           \<lparr>outcome = No_input, rendered = shown @ history,
                            proc = p1, sess = s\<lparr>messages := Some msgs\<rparr>\<rparr>
                         else
                           (case handle_prompt w a prompt p1 msgs of
                              (out, shown', p2, msgs') \<Rightarrow>
                                \<lparr>outcome = out, rendered = shown @ history @ shown',
                                 proc = p2, sess = s\<lparr>messages := Some msgs'\<rparr>\<rparr>))))))"

text \<open>The reruns of one session, one after the other.\<close>

fun reruns :: "world list \<Rightarrow> process \<Rightarrow> session_state \<Rightarrow> result list" where
  "reruns [] p s = []"
| "reruns (w # ws) p s = (let r = script w p s in r # reruns ws (proc r) (sess r))"

definition final_sess :: "session_state \<Rightarrow> result list \<Rightarrow> session_state" where
  "final_sess s rs = (if rs = [] then s else sess (last rs))"

definition conversation_log :: "session_state \<Rightarrow> message list" where
  "conversation_log s = (case messages s of None \<Rightarrow> [] | Some ms \<Rightarrow> ms)"

definition completed_turns :: "result list \<Rightarrow> nat" where
  "completed_turns rs = length (filter (\<lambda>r. outcome r = Turn_completed) rs)"

definition failed_turns :: "result list \<Rightarrow> nat" where
  "failed_turns rs =
     length (filter (\<lambda>r. case outcome r of Turn_failed e \<Rightarrow> True | _ \<Rightarrow> False) rs)"

text \<open>Two sessions of the same process whose lines 108-120 overlap: both redirect, both
  agents run, both restore. The values are the two \<open>agent_thoughts\<close>.\<close>

definition overlapping_runs ::
  "world \<Rightarrow> world \<Rightarrow> agent \<Rightarrow> string \<Rightarrow> string \<Rightarrow> process \<Rightarrow> (string \<times> string) \<times> process" where
  "overlapping_runs wa wb a qa qb p =
     (case redirect p of
        ((old_a, buf_a), p1) \<Rightarrow>
          (case redirect p1 of
             ((old_b, buf_b), p2) \<Rightarrow>
               (case invoke wa a qa p2 of
                  (ra, p3) \<Rightarrow>
                    (case invoke wb a qb p3 of
                       (rb, p4) \<Rightarrow>
                         (let p5 = restore old_a p4;
                              thoughts_a = getvalue buf_a p5;
                              p6 = restore old_b p5;
                              thoughts_b = getvalue buf_b p6
                          in ((thoughts_a, thoughts_b), p6))))))"

subsection \<open>A fresh process, a fresh session and sample worlds\<close>

definition fresh_process :: process where
  "fresh_process =
     \<lparr>cache = None, sys_stdout = Console, streams = (\<lambda>_. []), next_buf = 0,
      logged = [], discoveries = 0, runs = 0\<rparr>"

definition fresh_session :: session_state where
  "fresh_session = \<lparr>messages = None\<rparr>"

text \<open>The supervisor offers two tools and the agent answers.\<close>

definition world_ok :: world where
  "world_ok =
     \<lparr>A2AClientToolProvider = Inr [''search'', ''summarize''],
      BedrockModel = None,
      Agent = None,
      chat_input = Some ''find and summarize X'',
      agent_call = (\<lambda>a q. (''invoked search\<newline>invoked summarize\<newline>'',
                             Inr ''Here is a summary of X...''))\<rparr>"

text \<open>The same, but the agent call prints one line and raises.\<close>

definition world_timeout :: world where
  "world_timeout =
     world_ok\<lparr>chat_input := Some ''first question'',
              agent_call := (\<lambda>a q. (''invoked search\<newline>'', Inl ''backend timeout''))\<rparr>"

text \<open>The supervisor is not running.\<close>

definition world_down :: world where
  "world_down = world_ok\<lparr>A2AClientToolProvider := Inl ''Connection refused''\<rparr>"

text \<open>The supervisor answers and offers nothing.\<close>

definition world_no_tools :: world where
  "world_no_tools = world_ok\<lparr>A2AClientToolProvider := Inr []\<rparr>"

text \<open>Discovery succeeds and the model constructor raises.\<close>

definition world_no_region :: world where
  "world_no_region = world_ok\<lparr>BedrockModel := Some ''You must specify a region.''\<rparr>"

text \<open>Another session's question, with its own output and answer.\<close>

definition world_other :: world where
  "world_other =
     world_ok\<lparr>chat_input := Some ''translate Y'',
              agent_call := (\<lambda>a q. (''invoked translate\<newline>'', Inr ''Voici Y''))\<rparr>"

text \<open>The agent that \<open>initialize_client_agent\<close> builds in \<open>world_ok\<close>.\<close>

definition sample_agent :: agent where
  "sample_agent =
     \<lparr>system_prompt = client_system_prompt,
      tools = [''search'', ''summarize''],
      model = \<lparr>model_id = ''eu.anthropic.claude-sonnet-4-20250514-v1:0''\<rparr>\<rparr>"

text \<open>The roles of the entries a rerun with the given outcome appends to the log.\<close>

fun appended_roles :: "outcome \<Rightarrow> string list" where
  "appended_roles Turn_completed = [''user'', ''assistant'']"
| "appended_roles (Turn_failed e) = [''user'']"
| "appended_roles (Init_raised e) = []"
| "appended_roles Unavailable = []"
| "appended_roles No_input = []"

section \<open>Properties\<close>

subsection \<open>Frame and cache lemmas\<close>

lemma log_tools_logged: "log_tools ts p = p\<lparr>logged := logged p @ map (\<lambda>t. ''- '' @ t) ts\<rparr>"
  by (induction ts arbitrary: p) (simp_all add: logger_info_def)

lemma initialize_frame:
  assumes "initialize_client_agent w p = (r, shown, p')"
  shows "cache p' = cache p" and "sys_stdout p' = sys_stdout p" and "streams p' = streams p"
    and "next_buf p' = next_buf p" and "runs p' = runs p"
    and "discoveries p' = Suc (discoveries p)"
  using assms
  by (auto simp: initialize_client_agent_def Let_def log_tools_logged logger_info_def
           split: sum.splits option.splits if_splits)

lemma cached_hit:
  "cache p = Some (v, shown) \<Longrightarrow> cached_initialize_client_agent w p = (Inr v, shown, p)"
  by (simp add: cached_initialize_client_agent_def)

lemma cached_miss_returns:
  "cache p = None \<Longrightarrow> initialize_client_agent w p = (Inr v, shown, p') \<Longrightarrow>
   cached_initialize_client_agent w p = (Inr v, shown, p'\<lparr>cache := Some (v, shown)\<rparr>)"
  by (simp add: cached_initialize_client_agent_def)

lemma cached_miss_raises:
  "cache p = None \<Longrightarrow> initialize_client_agent w p = (Inl e, shown, p') \<Longrightarrow>
   cached_initialize_client_agent w p = (Inl e, shown, p')"
  by (simp add: cached_initialize_client_agent_def)

lemma initialize_calls_hit:
  "cache p = Some (v, shown) \<Longrightarrow> initialize_calls ws p = (replicate (length ws) (Inr v), p)"
  by (induction ws) (simp_all add: cached_hit)

subsection \<open>C1: discovery happens once\<close>

text \<open>
  C1, as stated, fails: a call that ends in an exception stores nothing, so the next call
  runs the body, and with it discovery, again. Here discovery succeeds twice and the model
  constructor raises twice: two calls, two discovery attempts.
\<close>

theorem initialize_twice_counterexample:
  "fst (initialize_calls [world_no_region, world_no_region] fresh_process) =
     [Inl ''You must specify a region.'', Inl ''You must specify a region.''] \<and>
   discoveries (snd (initialize_calls [world_no_region, world_no_region] fresh_process)) = 2"
  by (simp add: fresh_process_def world_no_region_def world_ok_def
        cached_initialize_client_agent_def initialize_client_agent_def
        logger_info_def Let_def)

text \<open>
  C1 (amended): if the first call returns (the agent, or \<^verbatim>\<open>None\<close> after a reported
  failure), then for every sequence of later calls, whatever the world is at each of them,
  every call returns the value of the first and discovery was attempted exactly once.
\<close>

theorem initialize_once:
  assumes "cache p = None" and "fst (initialize_client_agent w p) = Inr v"
  shows "fst (initialize_calls (w # ws) p) = replicate (Suc (length ws)) (Inr v) \<and>
         discoveries (snd (initialize_calls (w # ws) p)) = Suc (discoveries p)"
proof -
  obtain shown p' where body: "initialize_client_agent w p = (Inr v, shown, p')"
    using assms(2) by (cases "initialize_client_agent w p") auto
  let ?q = "p'\<lparr>cache := Some (v, shown)\<rparr>"
  have first: "cached_initialize_client_agent w p = (Inr v, shown, ?q)"
    using assms(1) body by (rule cached_miss_returns)
  have rest: "initialize_calls ws ?q = (replicate (length ws) (Inr v), ?q)"
    by (rule initialize_calls_hit) simp
  have "discoveries ?q = Suc (discoveries p)"
    using initialize_frame(6) [OF body] by simp
  with first rest show ?thesis by simp
qed

theorem initialize_once_witness:
  "fst (initialize_calls [world_down, world_ok, world_ok] fresh_process) =
     [Inr None, Inr None, Inr None] \<and>
   discoveries (snd (initialize_calls [world_down, world_ok, world_ok] fresh_process)) = 1"
  using initialize_once [of fresh_process world_down None "[world_ok, world_ok]"]
  by (simp add: fresh_process_def world_down_def world_ok_def initialize_client_agent_def
        logger_info_def Let_def)

subsection \<open>The outcomes of the body\<close>

lemma initialize_tools:
  "initialize_client_agent w p = (Inr (Some a), shown, p') \<Longrightarrow>
   A2AClientToolProvider w = Inr (tools a) \<and> tools a \<noteq> []"
  by (auto simp: initialize_client_agent_def Let_def split: sum.splits option.splits if_splits)

lemma initialize_no_tools:
  "A2AClientToolProvider w = Inr [] \<Longrightarrow>
   \<exists>p'. initialize_client_agent w p =
     (Inr None,
      [St_error (''No tools discovered from the agent at '' @ SUPERVISOR_URL @ ''.''),
       St_error ''Ensure the Supervisor Agent has defined tools.''], p')"
  by (simp add: initialize_client_agent_def Let_def)

lemma initialize_down:
  "A2AClientToolProvider w = Inl e \<Longrightarrow>
   \<exists>p'. initialize_client_agent w p =
     (Inr None,
      [St_error (''Failed to connect to Supervisor Agent at '' @ SUPERVISOR_URL @ ''.''),
       St_error ''Please ensure supervisor_agent.py is running.'',
       St_error (''Details: '' @ e)], p')"
  by (simp add: initialize_client_agent_def Let_def)

lemma initialize_raises:
  "A2AClientToolProvider w = Inr ts \<Longrightarrow> ts \<noteq> [] \<Longrightarrow>
   BedrockModel w = Some e \<or> BedrockModel w = None \<and> Agent w = Some e \<Longrightarrow>
   \<exists>p'. initialize_client_agent w p = (Inl e, [], p')"
  by (auto simp: initialize_client_agent_def Let_def)

subsection \<open>C5: no agent without tools\<close>

lemma cached_sound:
  assumes "cached_initialize_client_agent w p = (r, shown, p')"
    and "\<forall>a sh. cache p = Some (Some a, sh) \<longrightarrow> tools a \<noteq> []"
  shows "(\<forall>a. r = Inr (Some a) \<longrightarrow> tools a \<noteq> []) \<and>
         (\<forall>a sh. cache p' = Some (Some a, sh) \<longrightarrow> tools a \<noteq> [])"
proof (cases "cache p")
  case None
  obtain r0 sh0 p0 where body: "initialize_client_agent w p = (r0, sh0, p0)"
    by (cases "initialize_client_agent w p") auto
  show ?thesis
  proof (cases r0)
    case (Inl e)
    from cached_miss_raises [OF None body [unfolded Inl]] assms(1)
    have "r = Inl e" "p' = p0" by simp_all
    moreover have "cache p0 = None" using initialize_frame(1) [OF body] None by simp
    ultimately show ?thesis by simp
  next
    case (Inr v)
    from cached_miss_returns [OF None body [unfolded Inr]] assms(1)
    have eq: "r = Inr v" "p' = p0\<lparr>cache := Some (v, sh0)\<rparr>" by simp_all
    have "\<forall>a. v = Some a \<longrightarrow> tools a \<noteq> []"
      using body Inr initialize_tools by blast
    with eq show ?thesis by simp
  qed
next
  case (Some c)
  obtain v sh where c: "c = (v, sh)" by (cases c)
  with Some assms(1) have "r = Inr v" "p' = p" by (simp_all add: cached_hit)
  with Some c assms(2) show ?thesis by auto
qed

lemma initialize_calls_sound:
  "\<forall>a sh. cache p = Some (Some a, sh) \<longrightarrow> tools a \<noteq> [] \<Longrightarrow>
   Inr (Some a) \<in> set (fst (initialize_calls ws p)) \<Longrightarrow> tools a \<noteq> []"
proof (induction ws arbitrary: p)
  case Nil
  then show ?case by simp
next
  case (Cons w ws)
  obtain r shown p' where first: "cached_initialize_client_agent w p = (r, shown, p')"
    by (cases "cached_initialize_client_agent w p") auto
  note snd = cached_sound [OF first Cons.prems(1)]
  from Cons.prems(2) first
  have "r = Inr (Some a) \<or> Inr (Some a) \<in> set (fst (initialize_calls ws p'))"
    by (auto split: prod.splits)
  then show ?case
  proof
    assume "r = Inr (Some a)"
    with snd show ?thesis by blast
  next
    assume "Inr (Some a) \<in> set (fst (initialize_calls ws p'))"
    with Cons.IH [of p'] snd show ?thesis by blast
  qed
qed

text \<open>
  C5: when the provider is constructed and its tool list is empty, the initializer returns
  \<^verbatim>\<open>None\<close> and displays the two "no tools" errors (the source's form of
  NoCapabilitiesFound); and in every sequence of calls from an empty cache, whatever the
  worlds, every agent handed to a caller has a non-empty tool list.
\<close>

theorem no_tools_no_agent:
  assumes "cache p = None"
  shows "(A2AClientToolProvider w = Inr [] \<longrightarrow>
            fst (cached_initialize_client_agent w p) = Inr None \<and>
            fst (snd (cached_initialize_client_agent w p)) =
              [St_error (''No tools discovered from the agent at '' @ SUPERVISOR_URL @ ''.''),
               St_error ''Ensure the Supervisor Agent has defined tools.'']) \<and>
         (\<forall>a. Inr (Some a) \<in> set (fst (initialize_calls ws p)) \<longrightarrow> tools a \<noteq> [])"
proof (intro conjI impI allI)
  assume empty: "A2AClientToolProvider w = Inr []"
  from initialize_no_tools [OF empty, of p] obtain p' where
    "initialize_client_agent w p =
       (Inr None,
        [St_error (''No tools discovered from the agent at '' @ SUPERVISOR_URL @ ''.''),
         St_error ''Ensure the Supervisor Agent has defined tools.''], p')"
    by blast
  from cached_miss_returns [OF assms this]
  show "fst (cached_initialize_client_agent w p) = Inr None"
    and "fst (snd (cached_initialize_client_agent w p)) =
              [St_error (''No tools discovered from the agent at '' @ SUPERVISOR_URL @ ''.''),
               St_error ''Ensure the Supervisor Agent has defined tools.'']"
    by simp_all
next
  fix a
  assume "Inr (Some a) \<in> set (fst (initialize_calls ws p))"
  with assms show "tools a \<noteq> []"
    using initialize_calls_sound [of p a ws] by simp
qed

theorem no_tools_no_agent_witness:
  "fst (cached_initialize_client_agent world_no_tools fresh_process) = Inr None \<and>
   fst (snd (cached_initialize_client_agent world_no_tools fresh_process)) =
     [St_error ''No tools discovered from the agent at http://localhost:5000.'',
      St_error ''Ensure the Supervisor Agent has defined tools.''] \<and>
   tools \<lparr>system_prompt = client_system_prompt, tools = [''search'', ''summarize''],
          model = \<lparr>model_id = ''eu.anthropic.claude-sonnet-4-20250514-v1:0''\<rparr>\<rparr> \<noteq> []"
proof -
  have a: "cache fresh_process = None" by (simp add: fresh_process_def)
  have b: "A2AClientToolProvider world_no_tools = Inr []"
    by (simp add: world_no_tools_def world_ok_def)
  have c: "Inr (Some \<lparr>system_prompt = client_system_prompt, tools = [''search'', ''summarize''],
          model = \<lparr>model_id = ''eu.anthropic.claude-sonnet-4-20250514-v1:0''\<rparr>\<rparr>)
        \<in> set (fst (initialize_calls [world_ok] fresh_process))"
    by (simp add: fresh_process_def world_ok_def cached_initialize_client_agent_def
          initialize_client_agent_def Let_def logger_info_def)
  from no_tools_no_agent [OF a, of world_no_tools "[world_ok]"] b c
  show ?thesis by (simp add: SUPERVISOR_URL_def)
qed

subsection \<open>C9: exceptions of the model and agent constructors\<close>

text \<open>
  C9: the "Failed to connect" report is displayed exactly when the provider constructor
  raises. When the provider is constructed with at least one tool and the model constructor
  or the agent constructor raises \<open>e\<close>, the exception leaves the initializer: the result
  is neither \<^verbatim>\<open>None\<close> nor an agent, no error is displayed, nothing is stored in the
  cache, and the rerun ends at line 83 with that exception.
\<close>

theorem constructor_exception_propagates:
  "(St_error (''Failed to connect to Supervisor Agent at '' @ SUPERVISOR_URL @ ''.'')
      \<in> set (fst (snd (initialize_client_agent w p)))
    \<longleftrightarrow> (\<exists>e. A2AClientToolProvider w = Inl e)) \<and>
   (A2AClientToolProvider w = Inr ts \<longrightarrow> ts \<noteq> [] \<longrightarrow>
    (BedrockModel w = Some e \<or> BedrockModel w = None \<and> Agent w = Some e) \<longrightarrow>
    cache p = None \<longrightarrow>
      fst (initialize_client_agent w p) = Inl e \<and>
      fst (cached_initialize_client_agent w p) = Inl e \<and>
      fst (snd (cached_initialize_client_agent w p)) = [] \<and>
      cache (snd (snd (cached_initialize_client_agent w p))) = None \<and>
      outcome (script w p s) = Init_raised e \<and>
      rendered (script w p s) = [] \<and>
      sess (script w p s) = s)"
proof (intro conjI impI)
  show "St_error (''Failed to connect to Supervisor Agent at '' @ SUPERVISOR_URL @ ''.'')
      \<in> set (fst (snd (initialize_client_agent w p)))
    \<longleftrightarrow> (\<exists>e. A2AClientToolProvider w = Inl e)"
    by (auto simp: initialize_client_agent_def Let_def SUPERVISOR_URL_def
             split: sum.splits option.splits)
next
  assume "A2AClientToolProvider w = Inr ts" and "ts \<noteq> []"
    and "BedrockModel w = Some e \<or> BedrockModel w = None \<and> Agent w = Some e"
    and empty: "cache p = None"
  then obtain p' where body: "initialize_client_agent w p = (Inl e, [], p')"
    using initialize_raises by blast
  have cached: "cached_initialize_client_agent w p = (Inl e, [], p')"
    using empty body by (rule cached_miss_raises)
  have kept: "cache p' = None"
    using initialize_frame(1) [OF body] empty by simp
  show "fst (initialize_client_agent w p) = Inl e" using body by simp
  show "fst (cached_initialize_client_agent w p) = Inl e" using cached by simp
  show "fst (snd (cached_initialize_client_agent w p)) = []" using cached by simp
  show "cache (snd (snd (cached_initialize_client_agent w p))) = None"
    using cached kept by simp
  show "outcome (script w p s) = Init_raised e" using cached by (simp add: script_def)
  show "rendered (script w p s) = []" using cached by (simp add: script_def)
  show "sess (script w p s) = s" using cached by (simp add: script_def)
qed

theorem constructor_exception_propagates_witness:
  "fst (initialize_client_agent world_no_region fresh_process) = Inl ''You must specify a region.'' \<and>
   cache (snd (snd (cached_initialize_client_agent world_no_region fresh_process))) = None \<and>
   outcome (script world_no_region fresh_process fresh_session)
     = Init_raised ''You must specify a region.'' \<and>
   rendered (script world_no_region fresh_process fresh_session) = [] \<and>
   St_error ''Failed to connect to Supervisor Agent at http://localhost:5000.''
     \<in> set (fst (snd (initialize_client_agent world_down fresh_process)))"
proof -
  have a: "A2AClientToolProvider world_no_region = Inr [''search'', ''summarize'']"
    and b: "BedrockModel world_no_region = Some ''You must specify a region.''"
    by (simp_all add: world_no_region_def world_ok_def)
  have c: "cache fresh_process = None" by (simp add: fresh_process_def)
  have d: "\<exists>e. A2AClientToolProvider world_down = Inl e"
    by (simp add: world_down_def world_ok_def)
  from constructor_exception_propagates
         [of world_no_region fresh_process "[''search'', ''summarize'']"
             "''You must specify a region.''" fresh_session]
       constructor_exception_propagates
         [of world_down fresh_process "[]" "[]" fresh_session]
       a b c d
  show ?thesis by (simp add: SUPERVISOR_URL_def)
qed

subsection \<open>C6: no way out of the unavailable state\<close>

lemma script_unavailable:
  "cache p = Some (None, shown) \<Longrightarrow>
   script w p s =
     \<lparr>outcome = Unavailable,
      rendered = shown @ render_history (conversation_log s) @
        [St_warning ''Agent system is not available. Please resolve the errors above.''],
      proc = p, sess = s\<lparr>messages := Some (conversation_log s)\<rparr>\<rparr>"
  by (simp add: script_def cached_hit conversation_log_def Let_def)

lemma reruns_unavailable:
  "cache p = Some (None, shown) \<Longrightarrow> r \<in> set (reruns ws p s) \<Longrightarrow>
   outcome r = Unavailable \<and> proc r = p \<and> conversation_log (sess r) = conversation_log s \<and>
   last (rendered r) =
     St_warning ''Agent system is not available. Please resolve the errors above.''"
proof (induction ws arbitrary: s)
  case Nil
  then show ?case by simp
next
  case (Cons w ws)
  let ?s' = "s\<lparr>messages := Some (conversation_log s)\<rparr>"
  have log: "conversation_log ?s' = conversation_log s"
    by (simp add: conversation_log_def)
  from Cons.prems(2) script_unavailable [OF Cons.prems(1), of w s]
  have "r = script w p s \<or> r \<in> set (reruns ws p ?s')"
    by (auto simp: Let_def)
  then show ?case
  proof
    assume "r = script w p s"
    then show ?thesis
      using script_unavailable [OF Cons.prems(1), of w s] log by simp
  next
    assume "r \<in> set (reruns ws p ?s')"
    from Cons.IH [OF Cons.prems(1) this] log show ?thesis by simp
  qed
qed

lemma script_first_failure:
  assumes "cache p = None"
    and "initialize_client_agent w p = (Inr None, shown, p')"
  shows "script w p s =
     \<lparr>outcome = Unavailable,
      rendered = shown @ render_history (conversation_log s) @
        [St_warning ''Agent system is not available. Please resolve the errors above.''],
      proc = p'\<lparr>cache := Some (None, shown)\<rparr>,
      sess = s\<lparr>messages := Some (conversation_log s)\<rparr>\<rparr>"
  using cached_miss_returns [OF assms]
  by (simp add: script_def conversation_log_def Let_def)

text \<open>
  C6: when the first initialization fails (the provider constructor raises, or the tool list
  is empty), then in that rerun and in every later rerun of the session, whatever the world
  and the chat input are: the rerun takes the warning branch, the agent is never called,
  discovery is not repeated, the cache still holds \<^verbatim>\<open>None\<close>, and the conversation log
  is what it was.
\<close>

theorem unavailable_is_terminal:
  assumes "cache p = None"
    and "(\<exists>e. A2AClientToolProvider w = Inl e) \<or> A2AClientToolProvider w = Inr []"
  shows "\<forall>r \<in> set (reruns (w # ws) p s).
           outcome r = Unavailable \<and>
           runs (proc r) = runs p \<and>
           discoveries (proc r) = Suc (discoveries p) \<and>
           (\<exists>shown. cache (proc r) = Some (None, shown)) \<and>
           conversation_log (sess r) = conversation_log s \<and>
           last (rendered r) =
             St_warning ''Agent system is not available. Please resolve the errors above.''"
proof
  fix r
  assume mem: "r \<in> set (reruns (w # ws) p s)"
  from assms(2) obtain shown p' where
    body: "initialize_client_agent w p = (Inr None, shown, p')"
    using initialize_down [of w _ p] initialize_no_tools [of w p] by blast
  let ?q = "p'\<lparr>cache := Some (None, shown)\<rparr>"
  let ?s' = "s\<lparr>messages := Some (conversation_log s)\<rparr>"
  note first = script_first_failure [OF assms(1) body, of s]
  have q: "cache ?q = Some (None, shown)" "runs ?q = runs p"
    "discoveries ?q = Suc (discoveries p)"
    using initialize_frame(5,6) [OF body] by simp_all
  have log: "conversation_log ?s' = conversation_log s"
    by (simp add: conversation_log_def)
  from mem first have "r = script w p s \<or> r \<in> set (reruns ws ?q ?s')"
    by (auto simp: Let_def)
  then show "outcome r = Unavailable \<and>
           runs (proc r) = runs p \<and>
           discoveries (proc r) = Suc (discoveries p) \<and>
           (\<exists>shown. cache (proc r) = Some (None, shown)) \<and>
           conversation_log (sess r) = conversation_log s \<and>
           last (rendered r) =
             St_warning ''Agent system is not available. Please resolve the errors above.''"
  proof
    assume "r = script w p s"
    with first q log show ?thesis by simp
  next
    assume "r \<in> set (reruns ws ?q ?s')"
    from reruns_unavailable [OF q(1) this] q log show ?thesis by simp
  qed
qed

theorem unavailable_is_terminal_witness:
  "outcome (reruns [world_down, world_ok] fresh_process fresh_session ! 1) = Unavailable \<and>
   runs (proc (reruns [world_down, world_ok] fresh_process fresh_session ! 1)) = 0 \<and>
   discoveries (proc (reruns [world_down, world_ok] fresh_process fresh_session ! 1)) = 1 \<and>
   conversation_log (sess (reruns [world_down, world_ok] fresh_process fresh_session ! 1)) = []"
proof -
  have a: "cache fresh_process = None" by (simp add: fresh_process_def)
  have b: "(\<exists>e. A2AClientToolProvider world_down = Inl e) \<or>
           A2AClientToolProvider world_down = Inr []"
    by (simp add: world_down_def world_ok_def)
  have c: "reruns [world_down, world_ok] fresh_process fresh_session ! 1
             \<in> set (reruns [world_down, world_ok] fresh_process fresh_session)"
    by (simp add: Let_def)
  from unavailable_is_terminal [OF a b, of "[world_ok]" fresh_session] c
  show ?thesis
    by (simp add: fresh_process_def fresh_session_def conversation_log_def)
qed

subsection \<open>The turn handler\<close>

lemma cached_frame:
  assumes "cached_initialize_client_agent w p = (r, shown, p')"
  shows "sys_stdout p' = sys_stdout p" and "streams p' = streams p"
    and "next_buf p' = next_buf p" and "runs p' = runs p"
proof -
  obtain r0 sh0 p0 where body: "initialize_client_agent w p = (r0, sh0, p0)"
    by (cases "initialize_client_agent w p") auto
  note frame = initialize_frame [OF body]
  from assms body frame
  show "sys_stdout p' = sys_stdout p" and "streams p' = streams p"
    and "next_buf p' = next_buf p" and "runs p' = runs p"
    by (auto simp: cached_initialize_client_agent_def split: option.splits sum.splits)
qed

lemma handle_prompt_returns:
  assumes "agent_call w a prompt = (printed, Inr resp)"
  shows "\<exists>p'. handle_prompt w a prompt p msgs =
           (Turn_completed,
            [St_chat_message ''user'', St_markdown prompt,
             St_chat_message ''assistant'', St_status ''Thinking and executing task...'',
             Status_markdown ''#### Agent's Thought Process:'',
             Status_code printed,
             Status_update ''Task Complete!'',
             St_markdown resp],
            p',
            msgs @ [\<lparr>role = ''user'', content = prompt\<rparr>,
                    \<lparr>role = ''assistant'', content = resp\<rparr>]) \<and>
         sys_stdout p' = sys_stdout p \<and>
         streams p' = (streams p)(StringIO (next_buf p) := printed) \<and>
         next_buf p' = Suc (next_buf p) \<and>
         runs p' = Suc (runs p) \<and>
         cache p' = cache p \<and> discoveries p' = discoveries p"
  using assms
  by (simp add: handle_prompt_def redirect_def invoke_def restore_def getvalue_def Let_def)

lemma handle_prompt_raises:
  assumes "agent_call w a prompt = (printed, Inl e)"
  shows "\<exists>p'. handle_prompt w a prompt p msgs =
           (Turn_failed e,
            [St_chat_message ''user'', St_markdown prompt,
             St_chat_message ''assistant'', St_status ''Thinking and executing task...''],
            p',
            msgs @ [\<lparr>role = ''user'', content = prompt\<rparr>]) \<and>
         sys_stdout p' = StringIO (next_buf p) \<and>
         streams p' = (streams p)(StringIO (next_buf p) := printed) \<and>
         next_buf p' = Suc (next_buf p) \<and>
         runs p' = Suc (runs p) \<and>
         cache p' = cache p \<and> discoveries p' = discoveries p"
  using assms
  by (simp add: handle_prompt_def redirect_def invoke_def Let_def)

lemma script_prompt:
  assumes "cached_initialize_client_agent w p = (Inr (Some a), shown, p1)"
    and "chat_input w = Some prompt" and "prompt \<noteq> []"
    and "handle_prompt w a prompt p1 (conversation_log s) = (out, shown', p2, msgs')"
  shows "script w p s =
     \<lparr>outcome = out, rendered = shown @ render_history (conversation_log s) @ shown',
      proc = p2, sess = s\<lparr>messages := Some msgs'\<rparr>\<rparr>"
  using assms by (simp add: script_def conversation_log_def Let_def)

text \<open>Which path a rerun took can be read from its outcome.\<close>

lemma script_turn_cases:
  assumes "outcome (script w p s) = Turn_completed \<or> outcome (script w p s) = Turn_failed e"
  shows "\<exists>a shown p1 prompt out shown' p2 msgs'.
           cached_initialize_client_agent w p = (Inr (Some a), shown, p1) \<and>
           chat_input w = Some prompt \<and> prompt \<noteq> [] \<and>
           handle_prompt w a prompt p1 (conversation_log s) = (out, shown', p2, msgs') \<and>
           out = outcome (script w p s)"
proof -
  obtain r shown p1 where c: "cached_initialize_client_agent w p = (r, shown, p1)"
    by (cases "cached_initialize_client_agent w p") auto
  from assms c obtain a where r: "r = Inr (Some a)"
    by (cases r; auto simp: script_def Let_def split: option.splits)
  from assms c r obtain prompt where i: "chat_input w = Some prompt" "prompt \<noteq> []"
    by (cases "chat_input w"; auto simp: script_def Let_def split: if_splits)
  obtain out shown' p2 msgs' where
    h: "handle_prompt w a prompt p1 (conversation_log s) = (out, shown', p2, msgs')"
    by (cases "handle_prompt w a prompt p1 (conversation_log s)") auto
  from script_prompt [OF c [unfolded r] i h] have "out = outcome (script w p s)" by simp
  with c r i h show ?thesis by blast
qed

lemma handle_prompt_cases:
  obtains printed resp where "agent_call w a prompt = (printed, Inr resp)"
  | printed e where "agent_call w a prompt = (printed, Inl e)"
  by (cases "agent_call w a prompt"; cases "snd (agent_call w a prompt)") auto

subsection \<open>C10: \<^verbatim>\<open>sys.stdout\<close> after a turn that completes\<close>

text \<open>
  C10: when the agent call of a rerun returns normally, \<^verbatim>\<open>sys.stdout\<close> names after
  the rerun the stream it named before it.
\<close>

theorem stdout_restored:
  assumes "outcome (script w p s) = Turn_completed"
  shows "sys_stdout (proc (script w p s)) = sys_stdout p"
proof -
  from script_turn_cases [of w p s] assms
  obtain a shown p1 prompt shown' p2 msgs' where
    c: "cached_initialize_client_agent w p = (Inr (Some a), shown, p1)"
    and i: "chat_input w = Some prompt" "prompt \<noteq> []"
    and h: "handle_prompt w a prompt p1 (conversation_log s) =
              (Turn_completed, shown', p2, msgs')"
    by auto
  have proc: "proc (script w p s) = p2"
    using script_prompt [OF c i h] by simp
  show ?thesis
  proof (cases rule: handle_prompt_cases [of w a prompt])
    case (1 printed resp)
    from handle_prompt_returns [OF 1, of p1 "conversation_log s"] h
    have "sys_stdout p2 = sys_stdout p1" by auto
    with proc cached_frame(1) [OF c] show ?thesis by simp
  next
    case (2 printed e)
    from handle_prompt_raises [OF 2, of p1 "conversation_log s"] h
    show ?thesis by auto
  qed
qed

theorem stdout_restored_witness:
  "outcome (script world_ok fresh_process fresh_session) = Turn_completed \<and>
   sys_stdout (proc (script world_ok fresh_process fresh_session)) = Console"
proof -
  have a: "outcome (script world_ok fresh_process fresh_session) = Turn_completed"
    by (simp add: script_def cached_initialize_client_agent_def initialize_client_agent_def
          handle_prompt_def redirect_def invoke_def restore_def getvalue_def
          fresh_process_def fresh_session_def world_ok_def logger_info_def Let_def)
  from stdout_restored [OF a] a show ?thesis by (simp add: fresh_process_def)
qed

subsection \<open>C7: the trace is shown, the log gets request and response\<close>

text \<open>
  C7: in a rerun whose turn completes, the output the agent call printed is displayed in the
  status box, and the conversation log grows by exactly two entries: the user's prompt
  and the agent's response. The trace is in neither.
\<close>

theorem trace_displayed_not_logged:
  assumes "outcome (script w p s) = Turn_completed"
  shows "\<exists>a prompt printed resp.
           fst (cached_initialize_client_agent w p) = Inr (Some a) \<and>
           chat_input w = Some prompt \<and>
           agent_call w a prompt = (printed, Inr resp) \<and>
           Status_code printed \<in> set (rendered (script w p s)) \<and>
           conversation_log (sess (script w p s)) =
             conversation_log s @ [\<lparr>role = ''user'', content = prompt\<rparr>,
                                   \<lparr>role = ''assistant'', content = resp\<rparr>]"
proof -
  from script_turn_cases [of w p s] assms
  obtain a shown p1 prompt shown' p2 msgs' where
    c: "cached_initialize_client_agent w p = (Inr (Some a), shown, p1)"
    and i: "chat_input w = Some prompt" "prompt \<noteq> []"
    and h: "handle_prompt w a prompt p1 (conversation_log s) =
              (Turn_completed, shown', p2, msgs')"
    by auto
  note r = script_prompt [OF c i h]
  show ?thesis
  proof (cases rule: handle_prompt_cases [of w a prompt])
    case (1 printed resp)
    from handle_prompt_returns [OF 1, of p1 "conversation_log s"] h
    have "Status_code printed \<in> set shown'"
      and "msgs' = conversation_log s @ [\<lparr>role = ''user'', content = prompt\<rparr>,
                                          \<lparr>role = ''assistant'', content = resp\<rparr>]"
      by auto
    with r have "Status_code printed \<in> set (rendered (script w p s))"
      and "conversation_log (sess (script w p s)) =
             conversation_log s @ [\<lparr>role = ''user'', content = prompt\<rparr>,
                                   \<lparr>role = ''assistant'', content = resp\<rparr>]"
      by (simp_all add: conversation_log_def)
    with c i 1 show ?thesis by auto
  next
    case (2 printed e)
    from handle_prompt_raises [OF 2, of p1 "conversation_log s"] h
    show ?thesis by auto
  qed
qed

theorem trace_displayed_not_logged_witness:
  "outcome (script world_ok fresh_process fresh_session) = Turn_completed \<and>
   Status_code ''invoked search\<newline>invoked summarize\<newline>''
     \<in> set (rendered (script world_ok fresh_process fresh_session)) \<and>
   conversation_log (sess (script world_ok fresh_process fresh_session)) =
     [\<lparr>role = ''user'', content = ''find and summarize X''\<rparr>,
      \<lparr>role = ''assistant'', content = ''Here is a summary of X...''\<rparr>]"
proof -
  have a: "outcome (script world_ok fresh_process fresh_session) = Turn_completed"
    by (simp add: script_def cached_initialize_client_agent_def initialize_client_agent_def
          handle_prompt_def redirect_def invoke_def restore_def getvalue_def
          fresh_process_def fresh_session_def world_ok_def logger_info_def Let_def)
  from trace_displayed_not_logged [OF a] a show ?thesis
    by (auto simp: world_ok_def conversation_log_def fresh_session_def)
qed

subsection \<open>C8: the user entry is appended before the agent runs\<close>

text \<open>
  C8: in every rerun that reaches the agent call, the call is made once and the log entry
  after the previous last one is the user's prompt; when the call raises, that user entry
  is the last entry of the log: no assistant entry follows it.
\<close>

theorem user_entry_before_run:
  assumes "outcome (script w p s) = Turn_completed \<or> outcome (script w p s) = Turn_failed e"
  shows "\<exists>prompt.
           chat_input w = Some prompt \<and>
           runs (proc (script w p s)) = Suc (runs p) \<and>
           take (Suc (length (conversation_log s))) (conversation_log (sess (script w p s))) =
             conversation_log s @ [\<lparr>role = ''user'', content = prompt\<rparr>] \<and>
           (outcome (script w p s) = Turn_failed e \<longrightarrow>
              conversation_log (sess (script w p s)) =
                conversation_log s @ [\<lparr>role = ''user'', content = prompt\<rparr>])"
proof -
  from script_turn_cases [OF assms]
  obtain a shown p1 prompt out shown' p2 msgs' where
    c: "cached_initialize_client_agent w p = (Inr (Some a), shown, p1)"
    and i: "chat_input w = Some prompt" "prompt \<noteq> []"
    and h: "handle_prompt w a prompt p1 (conversation_log s) = (out, shown', p2, msgs')"
    and out: "out = outcome (script w p s)"
    by blast
  note r = script_prompt [OF c i h]
  have log: "conversation_log (sess (script w p s)) = msgs'"
    and proc: "proc (script w p s) = p2"
    using r by (simp_all add: conversation_log_def)
  show ?thesis
  proof (cases rule: handle_prompt_cases [of w a prompt])
    case (1 printed resp)
    from handle_prompt_returns [OF 1, of p1 "conversation_log s"] h
    have "out = Turn_completed" "runs p2 = Suc (runs p1)"
      "msgs' = conversation_log s @ [\<lparr>role = ''user'', content = prompt\<rparr>,
                                      \<lparr>role = ''assistant'', content = resp\<rparr>]"
      by auto
    with out log proc i cached_frame(4) [OF c] show ?thesis by simp
  next
    case (2 printed e')
    from handle_prompt_raises [OF 2, of p1 "conversation_log s"] h
    have "out = Turn_failed e'" "runs p2 = Suc (runs p1)"
      "msgs' = conversation_log s @ [\<lparr>role = ''user'', content = prompt\<rparr>]"
      by auto
    with out log proc i cached_frame(4) [OF c] show ?thesis by simp
  qed
qed

theorem user_entry_before_run_witness:
  "outcome (script world_timeout fresh_process fresh_session) = Turn_failed ''backend timeout'' \<and>
   runs (proc (script world_timeout fresh_process fresh_session)) = 1 \<and>
   conversation_log (sess (script world_timeout fresh_process fresh_session)) =
     [\<lparr>role = ''user'', content = ''first question''\<rparr>]"
proof -
  have a: "outcome (script world_timeout fresh_process fresh_session) =
             Turn_failed ''backend timeout''"
    by (simp add: script_def cached_initialize_client_agent_def initialize_client_agent_def
          handle_prompt_def redirect_def invoke_def
          fresh_process_def fresh_session_def world_timeout_def world_ok_def
          logger_info_def Let_def)
  from user_entry_before_run [of world_timeout fresh_process fresh_session "''backend timeout''"] a
  show ?thesis
    by (auto simp: world_timeout_def world_ok_def conversation_log_def fresh_session_def
          fresh_process_def)
qed

subsection \<open>C2: an exception of the agent call\<close>

lemma cached_returns_cache:
  assumes "cached_initialize_client_agent w p = (Inr v, shown, p')"
  shows "cache p' = Some (v, shown)"
proof (cases "cache p")
  case None
  obtain r0 sh0 p0 where body: "initialize_client_agent w p = (r0, sh0, p0)"
    by (cases "initialize_client_agent w p") auto
  with None assms show ?thesis
    by (cases r0) (auto simp: cached_initialize_client_agent_def)
next
  case (Some c)
  with assms show ?thesis
    by (cases c) (auto simp: cached_initialize_client_agent_def)
qed

text \<open>
  C2, as stated, fails: nothing catches an exception of the agent call. In a fresh process
  and session, with the supervisor up and an agent call that prints one line and raises
  "backend timeout", the rerun ends with that exception, and the log holds the user entry
  and no assistant entry.
\<close>

theorem run_failure_counterexample:
  "outcome (script world_timeout fresh_process fresh_session) = Turn_failed ''backend timeout'' \<and>
   conversation_log (sess (script world_timeout fresh_process fresh_session)) =
     [\<lparr>role = ''user'', content = ''first question''\<rparr>]"
  by (simp add: script_def cached_initialize_client_agent_def initialize_client_agent_def
        handle_prompt_def redirect_def invoke_def conversation_log_def
        fresh_process_def fresh_session_def world_timeout_def world_ok_def
        logger_info_def Let_def)

text \<open>
  C2 (amended): in a rerun in which the initializer hands out an agent and the agent call
  raises \<open>e\<close>, the exception leaves the handler and ends the rerun. The log gains the user
  entry and no assistant entry. The agent stays in the cache, and the session remains usable:
  in any process state holding that cache, a next rerun of the session whose agent call
  returns completes its turn, and the log continues with that turn's two entries.
\<close>

theorem run_failure_propagates:
  assumes "cached_initialize_client_agent w p = (Inr (Some a), shown, p1)"
    and "chat_input w = Some prompt" and "prompt \<noteq> []"
    and "agent_call w a prompt = (printed, Inl e)"
  shows "outcome (script w p s) = Turn_failed e \<and>
         conversation_log (sess (script w p s)) =
           conversation_log s @ [\<lparr>role = ''user'', content = prompt\<rparr>] \<and>
         cache (proc (script w p s)) = Some (Some a, shown) \<and>
         (\<forall>w' q prompt' printed' resp.
            cache q = cache (proc (script w p s)) \<longrightarrow>
            chat_input w' = Some prompt' \<longrightarrow> prompt' \<noteq> [] \<longrightarrow>
            agent_call w' a prompt' = (printed', Inr resp) \<longrightarrow>
              outcome (script w' q (sess (script w p s))) = Turn_completed \<and>
              conversation_log (sess (script w' q (sess (script w p s)))) =
                conversation_log s @
                [\<lparr>role = ''user'', content = prompt\<rparr>,
                 \<lparr>role = ''user'', content = prompt'\<rparr>,
                 \<lparr>role = ''assistant'', content = resp\<rparr>])"
proof -
  from handle_prompt_raises [OF assms(4), of p1 "conversation_log s"]
  obtain p2 where
    h: "handle_prompt w a prompt p1 (conversation_log s) =
          (Turn_failed e,
           [St_chat_message ''user'', St_markdown prompt,
            St_chat_message ''assistant'', St_status ''Thinking and executing task...''],
           p2, conversation_log s @ [\<lparr>role = ''user'', content = prompt\<rparr>])"
    and p2: "cache p2 = cache p1"
    by blast
  note r = script_prompt [OF assms(1-3) h]
  let ?s2 = "s\<lparr>messages := Some (conversation_log s @ [\<lparr>role = ''user'', content = prompt\<rparr>])\<rparr>"
  have proc: "proc (script w p s) = p2" and sess: "sess (script w p s) = ?s2"
    using r by simp_all
  have log2: "conversation_log ?s2 = conversation_log s @ [\<lparr>role = ''user'', content = prompt\<rparr>]"
    by (simp add: conversation_log_def)
  have cache2: "cache p2 = Some (Some a, shown)"
    using p2 cached_returns_cache [OF assms(1)] by simp
  have later: "outcome (script w' q ?s2) = Turn_completed \<and>
        conversation_log (sess (script w' q ?s2)) =
          conversation_log s @
          [\<lparr>role = ''user'', content = prompt\<rparr>,
           \<lparr>role = ''user'', content = prompt'\<rparr>,
           \<lparr>role = ''assistant'', content = resp\<rparr>]"
    if q: "cache q = cache p2"
      and i': "chat_input w' = Some prompt'" "prompt' \<noteq> []"
      and call': "agent_call w' a prompt' = (printed', Inr resp)"
    for w' q prompt' printed' resp
  proof -
    have "cache q = Some (Some a, shown)"
      using q cache2 by simp
    then have c': "cached_initialize_client_agent w' q = (Inr (Some a), shown, q)"
      by (rule cached_hit)
    from handle_prompt_returns [OF call', of q "conversation_log ?s2"]
    obtain q' where
      h': "handle_prompt w' a prompt' q (conversation_log ?s2) =
             (Turn_completed,
              [St_chat_message ''user'', St_markdown prompt',
               St_chat_message ''assistant'', St_status ''Thinking and executing task...'',
               Status_markdown ''#### Agent's Thought Process:'',
               Status_code printed',
               Status_update ''Task Complete!'',
               St_markdown resp],
              q',
              conversation_log ?s2 @ [\<lparr>role = ''user'', content = prompt'\<rparr>,
                                      \<lparr>role = ''assistant'', content = resp\<rparr>])"
      by blast
    from script_prompt [OF c' i' h'] log2 show ?thesis
      by (simp add: conversation_log_def)
  qed
  from r cache2 log2 have
    "outcome (script w p s) = Turn_failed e"
    "conversation_log (sess (script w p s)) =
           conversation_log s @ [\<lparr>role = ''user'', content = prompt\<rparr>]"
    "cache (proc (script w p s)) = Some (Some a, shown)"
    by simp_all
  moreover from later proc sess have
    "\<forall>w' q prompt' printed' resp.
            cache q = cache (proc (script w p s)) \<longrightarrow>
            chat_input w' = Some prompt' \<longrightarrow> prompt' \<noteq> [] \<longrightarrow>
            agent_call w' a prompt' = (printed', Inr resp) \<longrightarrow>
              outcome (script w' q (sess (script w p s))) = Turn_completed \<and>
              conversation_log (sess (script w' q (sess (script w p s)))) =
                conversation_log s @
                [\<lparr>role = ''user'', content = prompt\<rparr>,
                 \<lparr>role = ''user'', content = prompt'\<rparr>,
                 \<lparr>role = ''assistant'', content = resp\<rparr>]"
    by simp
  ultimately show ?thesis by blast
qed

theorem run_failure_propagates_witness:
  "outcome (script world_ok (proc (script world_timeout fresh_process fresh_session))
                           (sess (script world_timeout fresh_process fresh_session)))
     = Turn_completed \<and>
   conversation_log
     (sess (script world_ok (proc (script world_timeout fresh_process fresh_session))
                            (sess (script world_timeout fresh_process fresh_session)))) =
     [\<lparr>role = ''user'', content = ''first question''\<rparr>,
      \<lparr>role = ''user'', content = ''find and summarize X''\<rparr>,
      \<lparr>role = ''assistant'', content = ''Here is a summary of X...''\<rparr>]"
proof -
  obtain p1 where
    a: "cached_initialize_client_agent world_timeout fresh_process =
          (Inr (Some sample_agent),
           [St_success ''Successfully connected to the Supervisor Agent.''], p1)"
    by (simp add: cached_initialize_client_agent_def initialize_client_agent_def
          fresh_process_def world_timeout_def world_ok_def sample_agent_def Let_def)
  have b: "chat_input world_timeout = Some ''first question''" "''first question'' \<noteq> []"
    and c: "agent_call world_timeout sample_agent ''first question''
              = (''invoked search\<newline>'', Inl ''backend timeout'')"
    by (simp_all add: world_timeout_def world_ok_def)
  have d: "chat_input world_ok = Some ''find and summarize X''"
    "''find and summarize X'' \<noteq> []"
    "agent_call world_ok sample_agent ''find and summarize X''
       = (''invoked search\<newline>invoked summarize\<newline>'', Inr ''Here is a summary of X...'')"
    by (simp_all add: world_ok_def)
  from run_failure_propagates [OF a b c, of fresh_session] d
  have "\<forall>q. cache q = cache (proc (script world_timeout fresh_process fresh_session)) \<longrightarrow>
          outcome (script world_ok q (sess (script world_timeout fresh_process fresh_session)))
            = Turn_completed \<and>
          conversation_log
            (sess (script world_ok q (sess (script world_timeout fresh_process fresh_session)))) =
            conversation_log fresh_session @
            [\<lparr>role = ''user'', content = ''first question''\<rparr>,
             \<lparr>role = ''user'', content = ''find and summarize X''\<rparr>,
             \<lparr>role = ''assistant'', content = ''Here is a summary of X...''\<rparr>]"
    by blast
  then show ?thesis
    by (simp add: conversation_log_def fresh_session_def)
qed

subsection \<open>C4: length and roles of the conversation log\<close>

lemma handle_prompt_outcome:
  assumes "handle_prompt w a prompt p msgs = (out, shown, p', msgs')"
  shows "out = Turn_completed \<or> (\<exists>e. out = Turn_failed e)"
proof (cases rule: handle_prompt_cases [of w a prompt])
  case (1 printed resp)
  from handle_prompt_returns [OF 1, of p msgs] assms show ?thesis by auto
next
  case (2 printed e)
  from handle_prompt_raises [OF 2, of p msgs] assms show ?thesis by auto
qed

lemma script_roles:
  "map role (conversation_log (sess (script w p s))) =
     map role (conversation_log s) @ appended_roles (outcome (script w p s))"
proof (cases "outcome (script w p s)")
  case Turn_completed
  from script_turn_cases [of w p s] Turn_completed
  obtain a shown p1 prompt shown' p2 msgs' where
    c: "cached_initialize_client_agent w p = (Inr (Some a), shown, p1)"
    and i: "chat_input w = Some prompt" "prompt \<noteq> []"
    and h: "handle_prompt w a prompt p1 (conversation_log s) =
              (Turn_completed, shown', p2, msgs')"
    by auto
  have "map role msgs' = map role (conversation_log s) @ [''user'', ''assistant'']"
  proof (cases rule: handle_prompt_cases [of w a prompt])
    case (1 printed resp)
    from handle_prompt_returns [OF 1, of p1 "conversation_log s"] h show ?thesis by auto
  next
    case (2 printed e)
    from handle_prompt_raises [OF 2, of p1 "conversation_log s"] h show ?thesis by auto
  qed
  with script_prompt [OF c i h] Turn_completed show ?thesis
    by (simp add: conversation_log_def)
next
  case (Turn_failed e)
  from script_turn_cases [of w p s e] Turn_failed
  obtain a shown p1 prompt shown' p2 msgs' where
    c: "cached_initialize_client_agent w p = (Inr (Some a), shown, p1)"
    and i: "chat_input w = Some prompt" "prompt \<noteq> []"
    and h: "handle_prompt w a prompt p1 (conversation_log s) =
              (Turn_failed e, shown', p2, msgs')"
    by auto
  have "map role msgs' = map role (conversation_log s) @ [''user'']"
  proof (cases rule: handle_prompt_cases [of w a prompt])
    case (1 printed resp)
    from handle_prompt_returns [OF 1, of p1 "conversation_log s"] h show ?thesis by auto
  next
    case (2 printed e')
    from handle_prompt_raises [OF 2, of p1 "conversation_log s"] h show ?thesis by auto
  qed
  with script_prompt [OF c i h] Turn_failed show ?thesis
    by (simp add: conversation_log_def)
next
  case (Init_raised e)
  then have "sess (script w p s) = s"
    by (auto simp: script_def Let_def dest: handle_prompt_outcome
             split: prod.splits sum.splits option.splits if_splits)
  with Init_raised show ?thesis by simp
next
  case Unavailable
  then have "conversation_log (sess (script w p s)) = conversation_log s"
    by (auto simp: script_def Let_def conversation_log_def dest: handle_prompt_outcome
             split: prod.splits sum.splits option.splits if_splits)
  with Unavailable show ?thesis by simp
next
  case No_input
  then have "conversation_log (sess (script w p s)) = conversation_log s"
    by (auto simp: script_def Let_def conversation_log_def dest: handle_prompt_outcome
             split: prod.splits sum.splits option.splits if_splits)
  with No_input show ?thesis by simp
qed

lemma final_sess_Cons: "final_sess s (r # rs) = final_sess (sess r) rs"
  by (simp add: final_sess_def)

lemma reruns_roles:
  "map role (conversation_log (final_sess s (reruns ws p s))) =
     map role (conversation_log s) @ concat (map (\<lambda>r. appended_roles (outcome r)) (reruns ws p s))"
proof (induction ws arbitrary: p s)
  case Nil
  then show ?case by (simp add: final_sess_def)
next
  case (Cons w ws)
  let ?r = "script w p s"
  have "map role (conversation_log (final_sess s (reruns (w # ws) p s))) =
        map role (conversation_log (final_sess (sess ?r) (reruns ws (proc ?r) (sess ?r))))"
    by (simp add: Let_def final_sess_Cons)
  also have "\<dots> = map role (conversation_log (sess ?r)) @
        concat (map (\<lambda>r. appended_roles (outcome r)) (reruns ws (proc ?r) (sess ?r)))"
    by (rule Cons.IH)
  also have "\<dots> = map role (conversation_log s) @
        concat (map (\<lambda>r. appended_roles (outcome r)) (reruns (w # ws) p s))"
    by (simp add: script_roles Let_def)
  finally show ?case .
qed

lemma length_appended_roles:
  "length (concat (map (\<lambda>r. appended_roles (outcome r)) rs)) =
     2 * completed_turns rs + failed_turns rs"
proof (induction rs)
  case Nil
  then show ?case by (simp add: completed_turns_def failed_turns_def)
next
  case (Cons r rs)
  then show ?case
    by (cases "outcome r") (simp_all add: completed_turns_def failed_turns_def)
qed

lemma appended_roles_alternate:
  "failed_turns rs = 0 \<Longrightarrow>
   concat (map (\<lambda>r. appended_roles (outcome r)) rs) =
     concat (replicate (completed_turns rs) [''user'', ''assistant''])"
proof (induction rs)
  case Nil
  then show ?case by (simp add: completed_turns_def)
next
  case (Cons r rs)
  then show ?case
    by (cases "outcome r") (simp_all add: completed_turns_def failed_turns_def)
qed

text \<open>
  C4, as stated, fails: a turn whose agent call raises leaves a user entry behind. After
  such a turn and one completed turn the log has three entries, user, user, assistant,
  for one completed turn.
\<close>

theorem log_after_failed_turn_counterexample:
  "completed_turns (reruns [world_timeout, world_ok] fresh_process fresh_session) = 1 \<and>
   map role (conversation_log
     (final_sess fresh_session (reruns [world_timeout, world_ok] fresh_process fresh_session))) =
     [''user'', ''user'', ''assistant'']"
  by (simp add: completed_turns_def final_sess_def conversation_log_def
        script_def cached_initialize_client_agent_def initialize_client_agent_def
        handle_prompt_def redirect_def invoke_def restore_def getvalue_def
        fresh_process_def fresh_session_def world_timeout_def world_ok_def
        logger_info_def Let_def)

text \<open>
  C4 (amended): after any sequence of reruns of a fresh session, in any process and
  whatever the worlds, the log has two entries for every completed turn and one for every
  turn whose agent call raised; when no agent call raised, it has exactly \<open>2N\<close> entries for
  \<open>N\<close> completed turns, with the roles user, assistant, user, assistant, ...
\<close>

theorem log_length_and_roles:
  "length (conversation_log (final_sess fresh_session (reruns ws p fresh_session))) =
     2 * completed_turns (reruns ws p fresh_session) + failed_turns (reruns ws p fresh_session) \<and>
   (failed_turns (reruns ws p fresh_session) = 0 \<longrightarrow>
      length (conversation_log (final_sess fresh_session (reruns ws p fresh_session))) =
        2 * completed_turns (reruns ws p fresh_session) \<and>
      map role (conversation_log (final_sess fresh_session (reruns ws p fresh_session))) =
        concat (replicate (completed_turns (reruns ws p fresh_session)) [''user'', ''assistant'']))"
proof -
  let ?rs = "reruns ws p fresh_session"
  let ?log = "conversation_log (final_sess fresh_session ?rs)"
  have roles: "map role ?log = concat (map (\<lambda>r. appended_roles (outcome r)) ?rs)"
    using reruns_roles [of fresh_session ws p]
    by (simp add: fresh_session_def conversation_log_def)
  have "length ?log = length (map role ?log)" by simp
  also have "\<dots> = 2 * completed_turns ?rs + failed_turns ?rs"
    unfolding roles by (rule length_appended_roles)
  finally have len: "length ?log = 2 * completed_turns ?rs + failed_turns ?rs" .
  have "map role ?log = concat (replicate (completed_turns ?rs) [''user'', ''assistant''])"
    if "failed_turns ?rs = 0"
    unfolding roles using that by (rule appended_roles_alternate)
  with len show ?thesis by simp
qed

theorem log_length_and_roles_witness:
  "failed_turns (reruns [world_ok, world_other] fresh_process fresh_session) = 0 \<and>
   length (conversation_log (final_sess fresh_session
             (reruns [world_ok, world_other] fresh_process fresh_session))) = 4 \<and>
   map role (conversation_log (final_sess fresh_session
             (reruns [world_ok, world_other] fresh_process fresh_session))) =
     [''user'', ''assistant'', ''user'', ''assistant'']"
proof -
  have a: "map outcome (reruns [world_ok, world_other] fresh_process fresh_session)
             = [Turn_completed, Turn_completed]"
    by (simp add: script_def cached_initialize_client_agent_def initialize_client_agent_def
          handle_prompt_def redirect_def invoke_def restore_def getvalue_def
          fresh_process_def fresh_session_def world_other_def world_ok_def
          logger_info_def Let_def)
  have f: "failed_turns (reruns [world_ok, world_other] fresh_process fresh_session) = 0"
    and c: "completed_turns (reruns [world_ok, world_other] fresh_process fresh_session) = 2"
    using a by (simp_all add: failed_turns_def completed_turns_def Let_def)
  from log_length_and_roles [of "[world_ok, world_other]" fresh_process] f c
  show ?thesis by (simp add: numeral_2_eq_2)
qed

subsection \<open>C3: what the trace holds\<close>

text \<open>In every process reached from a fresh one, \<^verbatim>\<open>sys.stdout\<close> is the console or a
  buffer that was allocated before.\<close>

lemma fresh_process_allocated:
  "\<forall>k. sys_stdout fresh_process = StringIO k \<longrightarrow> k < next_buf fresh_process"
  by (simp add: fresh_process_def)

lemma script_allocated:
  assumes "\<forall>k. sys_stdout p = StringIO k \<longrightarrow> k < next_buf p"
  shows "\<forall>k. sys_stdout (proc (script w p s)) = StringIO k \<longrightarrow> k < next_buf (proc (script w p s))"
proof -
  obtain r shown p1 where c: "cached_initialize_client_agent w p = (r, shown, p1)"
    by (cases "cached_initialize_client_agent w p") auto
  have p1: "\<forall>k. sys_stdout p1 = StringIO k \<longrightarrow> k < next_buf p1"
    using assms cached_frame(1,3) [OF c] by simp
  have turn: "\<forall>k. sys_stdout p2 = StringIO k \<longrightarrow> k < next_buf p2"
    if "handle_prompt w a prompt p1 msgs = (out, shown', p2, msgs')"
    for a prompt msgs out shown' p2 msgs'
  proof (cases rule: handle_prompt_cases [of w a prompt])
    case (1 printed resp)
    from handle_prompt_returns [OF 1, of p1 msgs] that p1 show ?thesis
      by (auto simp: less_Suc_eq)
  next
    case (2 printed e)
    from handle_prompt_raises [OF 2, of p1 msgs] that show ?thesis by auto
  qed
  from c p1 turn show ?thesis
    by (auto simp: script_def Let_def split: sum.splits option.splits prod.splits)
qed

text \<open>
  C3, as stated, fails: the output is written to whatever \<^verbatim>\<open>sys.stdout\<close> names, and
  that variable is shared by the whole process. When two sessions' turns overlap (both
  redirect, then both agents run, then both restore), the first session's trace is empty
  although its call printed two lines, and the second session's trace holds the first
  session's output in front of its own.
\<close>

theorem overlapping_traces_counterexample:
  "fst (overlapping_runs world_ok world_other sample_agent
          ''find and summarize X'' ''translate Y'' fresh_process) =
     ('''', ''invoked search\<newline>invoked summarize\<newline>invoked translate\<newline>'')"
  by (simp add: overlapping_runs_def redirect_def invoke_def restore_def getvalue_def
        fresh_process_def world_other_def world_ok_def Let_def)

text \<open>
  C3 (amended): when turns do not overlap, for every agent call that returns, in any process
  state (whatever earlier calls wrote, whatever buffer an earlier failed turn left behind):
  the trace displayed is exactly what this call printed; the only stream whose content
  changes is the buffer allocated for this call, which afterwards holds that output; the
  stream that was \<^verbatim>\<open>sys.stdout\<close> before the call and the console receive nothing.
\<close>

theorem trace_is_call_output:
  assumes "agent_call w a prompt = (printed, Inr resp)"
    and "\<forall>k. sys_stdout p = StringIO k \<longrightarrow> k < next_buf p"
  shows "fst (handle_prompt w a prompt p msgs) = Turn_completed \<and>
         fst (snd (handle_prompt w a prompt p msgs)) =
           [St_chat_message ''user'', St_markdown prompt,
            St_chat_message ''assistant'', St_status ''Thinking and executing task...'',
            Status_markdown ''#### Agent's Thought Process:'',
            Status_code printed,
            Status_update ''Task Complete!'',
            St_markdown resp] \<and>
         streams (fst (snd (snd (handle_prompt w a prompt p msgs)))) =
           (streams p)(StringIO (next_buf p) := printed) \<and>
         streams (fst (snd (snd (handle_prompt w a prompt p msgs)))) (sys_stdout p) =
           streams p (sys_stdout p) \<and>
         streams (fst (snd (snd (handle_prompt w a prompt p msgs)))) Console =
           streams p Console"
proof -
  from handle_prompt_returns [OF assms(1), of p msgs]
  obtain p' where
    h: "handle_prompt w a prompt p msgs =
           (Turn_completed,
            [St_chat_message ''user'', St_markdown prompt,
             St_chat_message ''assistant'', St_status ''Thinking and executing task...'',
             Status_markdown ''#### Agent's Thought Process:'',
             Status_code printed,
             Status_update ''Task Complete!'',
             St_markdown resp],
            p',
            msgs @ [\<lparr>role = ''user'', content = prompt\<rparr>,
                    \<lparr>role = ''assistant'', content = resp\<rparr>])"
    and s: "streams p' = (streams p)(StringIO (next_buf p) := printed)"
    by blast
  have "sys_stdout p \<noteq> StringIO (next_buf p)"
    using assms(2) by auto
  with h s show ?thesis by simp
qed

theorem trace_is_call_output_witness:
  "fst (snd (handle_prompt world_other sample_agent ''translate Y''
              (proc (script world_timeout fresh_process fresh_session)) [])) =
     [St_chat_message ''user'', St_markdown ''translate Y'',
      St_chat_message ''assistant'', St_status ''Thinking and executing task...'',
      Status_markdown ''#### Agent's Thought Process:'',
      Status_code ''invoked translate\<newline>'',
      Status_update ''Task Complete!'',
      St_markdown ''Voici Y''] \<and>
   streams (fst (snd (snd (handle_prompt world_other sample_agent ''translate Y''
              (proc (script world_timeout fresh_process fresh_session)) [])))) (StringIO 0)
     = ''invoked search\<newline>'' \<and>
   streams (fst (snd (snd (handle_prompt world_other sample_agent ''translate Y''
              (proc (script world_timeout fresh_process fresh_session)) [])))) Console = []"
proof -
  let ?p = "proc (script world_timeout fresh_process fresh_session)"
  have a: "agent_call world_other sample_agent ''translate Y''
             = (''invoked translate\<newline>'', Inr ''Voici Y'')"
    by (simp add: world_other_def world_ok_def)
  have p: "sys_stdout ?p = StringIO 0" "next_buf ?p = 1"
    "streams ?p (StringIO 0) = ''invoked search\<newline>''" "streams ?p Console = []"
    by (simp_all add: script_def cached_initialize_client_agent_def
          initialize_client_agent_def handle_prompt_def redirect_def invoke_def
          fresh_process_def fresh_session_def world_timeout_def world_ok_def
          logger_info_def Let_def)
  have b: "\<forall>k. sys_stdout ?p = StringIO k \<longrightarrow> k < next_buf ?p"
    using p by simp
  from trace_is_call_output [OF a b, of "[]"] p show ?thesis by simp
qed

end
